theory Spec2Isabelle
  imports Main "HOL-Library.Word"
begin

section \<open>Go values the receiver handles\<close>

text \<open>
  \<^verbatim>\<open>time.Duration\<close> is a signed 64-bit count of nanoseconds and \<^verbatim>\<open>time.Time\<close> an
  instant; both are integers here (nanoseconds), and none of the values below comes near
  the 64-bit range. \<^verbatim>\<open>float64\<close> is kept as its IEEE-754 bit pattern: the receiver never
  computes with a value, it only compares it with zero and passes it on.
\<close>

type_synonym Duration = int
type_synonym Time = int
type_synonym float64 = "64 word"

definition Second :: Duration where
  "Second = 1000000000"

text \<open>Go's \<^verbatim>\<open>f != 0\<close>: both zeros (\<open>+0\<close> and \<open>-0\<close>) compare equal to 0, a NaN does not.\<close>

definition f64_ne_zero :: "float64 \<Rightarrow> bool" where
  "f64_ne_zero f = (f \<noteq> 0 \<and> f \<noteq> 0x8000000000000000)"

text \<open>\<^verbatim>\<open>serde.Ident\<close> is a \<^verbatim>\<open>map[string]string\<close>.\<close>

type_synonym Ident = "string \<rightharpoonup> string"

text \<open>
  Objects of types declared outside this package (the database handles a SerDe gives
  out, a DS specification, an aggregator command) are stored and passed on, never
  inspected: each is an opaque handle.
\<close>

type_synonym handle = nat

text \<open>
  A call either returns, or blocks on a channel send that cannot proceed, or panics
  (a nil pointer or nil interface is dereferenced, or the call gives up on its own).
\<close>

datatype 'a outcome = Done 'a | Blocked | Panic

fun map_outcome :: "('a \<Rightarrow> 'b) \<Rightarrow> 'a outcome \<Rightarrow> 'b outcome" where
  "map_outcome g (Done x) = Done (g x)"
| "map_outcome g Blocked = Blocked"
| "map_outcome g Panic = Panic"

subsection \<open>Buffered channels\<close>

text \<open>
  A channel made by \<^verbatim>\<open>make(chan T, n)\<close>: the queued elements, oldest first, and the
  capacity. A send appends when there is room; with a full buffer the sender blocks
  until a receiver takes an element, which no function of this file does.
\<close>

record 'a chan =
  chan_buf :: "'a list"
  chan_cap :: nat

definition make_chan :: "nat \<Rightarrow> 'a chan" where
  "make_chan n = \<lparr>chan_buf = [], chan_cap = n\<rparr>"

definition chan_send :: "'a chan \<Rightarrow> 'a \<Rightarrow> 'a chan outcome" where
  "chan_send c x =
     (if length (chan_buf c) < chan_cap c then Done (c\<lparr>chan_buf := chan_buf c @ [x]\<rparr>)
      else Blocked)"

section \<open>The data model of receiver.go\<close>

text \<open>\<^verbatim>\<open>type incomingDP struct { Ident; TimeStamp; Value; Hops }\<close>\<close>

record incomingDP =
  Ident :: Ident
  TimeStamp :: Time
  Value :: float64
  Hops :: int

text \<open>
  The paced metric queued by \<^verbatim>\<open>QueueSum\<close> and \<^verbatim>\<open>QueueGauge\<close>:
  \<^verbatim>\<open>&pacedMetric{kind: pacedSum, ident: ident, value: v}\<close>.
\<close>

datatype pacedKind = pacedSum | pacedGauge

record pacedMetric =
  pm_kind :: pacedKind
  pm_ident :: Ident
  pm_value :: float64

text \<open>
  The \<^verbatim>\<open>clusterer\<close> interface, as far as the receiver calls it: \<^verbatim>\<open>LocalNode()\<close> gives a
  node or nil, \<^verbatim>\<open>Ready(bool)\<close> gives an error or nil. Of a node the receiver reads
  \<^verbatim>\<open>ln.Addr.String()\<close> only, which is the field \<open>Addr_String\<close>.
\<close>

record Node =
  Addr_String :: string

record clusterer =
  LocalNode :: "Node option"
  Ready :: "bool \<Rightarrow> string option"

text \<open>\<^verbatim>\<open>serde.SerDe\<close>: the results of its methods \<^verbatim>\<open>Flusher()\<close> and \<^verbatim>\<open>Fetcher()\<close>.\<close>

record SerDe =
  Flusher :: handle
  Fetcher :: handle

text \<open>
  \<^verbatim>\<open>MatchingDSSpecFinder\<close>: the default \<^verbatim>\<open>&SimpleDSFinder{spec}\<close>, or any other
  implementation the caller passes.
\<close>

datatype MatchingDSSpecFinder = SimpleDSFinder handle | CustomFinder handle

text \<open>
  \<^verbatim>\<open>&dsFlusher{db: serde.Flusher(), sr: r}\<close>; \<open>sr\<close> points back at the receiver that
  owns the flusher and is not repeated here.
\<close>

record dsFlusher =
  db :: handle

text \<open>
  The DS cache. \<^verbatim>\<open>newDsCache(fetcher, finder, flusher)\<close> is declared outside
  receiver.go: the cache keeps the three arguments of that call, and the field
  \<open>clstr\<close> that \<^verbatim>\<open>SetCluster\<close> assigns, nil at first.
\<close>

record dsCache =
  dsc_db :: handle
  dsc_finder :: MatchingDSSpecFinder
  dsc_dsf :: dsFlusher
  clstr :: "clusterer option"

definition newDsCache :: "handle \<Rightarrow> MatchingDSSpecFinder \<Rightarrow> dsFlusher \<Rightarrow> dsCache" where
  "newDsCache fetcher finder dsf =
     \<lparr>dsc_db = fetcher, dsc_finder = finder, dsc_dsf = dsf, clstr = None\<rparr>"

text \<open>
  \<^verbatim>\<open>type Receiver struct\<close>. Interfaces and pointers that may be nil are options. The
  wait groups are zero-valued by \<^verbatim>\<open>New\<close> and used by no function of receiver.go; they
  are left out. \<open>workerChs\<close> holds one channel per worker and is nil until the receiver
  is started. An element of \<open>aggCh\<close> is a \<^verbatim>\<open>*aggregator.Command\<close>, nil or a handle.
\<close>

record Receiver =
  NWorkers :: int
  MinCacheDuration :: Duration
  MaxCacheDuration :: Duration
  MaxCachedPoints :: int
  MaxFlushRatePerSecond :: int
  StatFlushDuration :: Duration
  StatsNamePrefix :: string
  ReportStats :: bool
  ReportStatsPrefix :: string
  cluster :: "clusterer option"
  serde :: "SerDe option"
  dsc :: "dsCache option"
  flusher :: "dsFlusher option"
  dpCh :: "incomingDP chan"
  workerChs :: "incomingDP chan list"
  aggCh :: "handle option chan"
  pacedMetricCh :: "pacedMetric chan"
  stopped :: bool

section \<open>The operations of receiver.go\<close>

text \<open>
  \<^verbatim>\<open>func New(serde serde.SerDe, finder MatchingDSSpecFinder) *Receiver\<close>. The package
  variable \<^verbatim>\<open>DftDSSPec\<close> is declared outside receiver.go and is a parameter. With a nil
  \<open>serde\<close> the call \<^verbatim>\<open>serde.Flusher()\<close> panics.
\<close>

definition New :: "handle \<Rightarrow> SerDe option \<Rightarrow> MatchingDSSpecFinder option \<Rightarrow> Receiver outcome" where
  "New DftDSSPec sd finder =
     (let finder1 = (case finder of None \<Rightarrow> SimpleDSFinder DftDSSPec | Some f \<Rightarrow> f);
          r = \<lparr>NWorkers = 4,
               MinCacheDuration = 1 * Second,
               MaxCacheDuration = 5 * Second,
               MaxCachedPoints = 256,
               MaxFlushRatePerSecond = 100,
               StatFlushDuration = 10 * Second,
               StatsNamePrefix = ''stats'',
               ReportStats = False,
               ReportStatsPrefix = ''tgres'',
               cluster = None,
               serde = sd,
               dsc = None,
               flusher = None,
               dpCh = make_chan 65536,
               workerChs = [],
               aggCh = make_chan 1024,
               pacedMetricCh = make_chan 1024,
               stopped = False\<rparr>
      in case sd of
           None \<Rightarrow> Panic
         | Some s \<Rightarrow>
             (let fl = \<lparr>db = Flusher s\<rparr>;
                  r1 = r\<lparr>flusher := Some fl\<rparr>;
                  r2 = r1\<lparr>dsc := Some (newDsCache (Fetcher s) finder1 fl)\<rparr>
              in Done r2))"

text \<open>
  \<^verbatim>\<open>Start\<close> and \<^verbatim>\<open>Stop\<close> hand over to \<^verbatim>\<open>doStart\<close> and \<^verbatim>\<open>doStop\<close>, which are declared
  outside receiver.go and are parameters of these two definitions.
\<close>

definition Start :: "(Receiver \<Rightarrow> Receiver outcome) \<Rightarrow> Receiver \<Rightarrow> Receiver outcome" where
  "Start doStart r = doStart r"

definition Stop ::
  "(Receiver \<Rightarrow> clusterer option \<Rightarrow> Receiver outcome) \<Rightarrow> Receiver \<Rightarrow> Receiver outcome" where
  "Stop doStop r = (let r1 = r\<lparr>stopped := True\<rparr> in doStop r1 (cluster r1))"

text \<open>
  \<^verbatim>\<open>func (r *Receiver) ClusterReady(ready bool) { r.cluster.Ready(ready) }\<close>: a method
  call on the interface value, which panics when it is nil; the error \<^verbatim>\<open>Ready\<close> returns
  is discarded.
\<close>

definition ClusterReady :: "Receiver \<Rightarrow> bool \<Rightarrow> Receiver outcome" where
  "ClusterReady r ready =
     (case cluster r of
        None \<Rightarrow> Panic
      | Some c \<Rightarrow> (let _ = Ready c ready in Done r))"

text \<open>
  \<^verbatim>\<open>strings.Replace(s, ".", "_", -1)\<close>: every occurrence of the one-byte string \<open>old\<close>
  is replaced.
\<close>

definition Replace_all :: "string \<Rightarrow> char \<Rightarrow> string \<Rightarrow> string" where
  "Replace_all s old new = concat (map (\<lambda>c. if c = old then new else [c]) s)"

text \<open>
  \<^verbatim>\<open>func (r *Receiver) SetCluster(c clusterer)\<close>. \<^verbatim>\<open>r.dsc.clstr = c\<close> panics on a nil
  \<open>dsc\<close>, \<^verbatim>\<open>c.LocalNode()\<close> on a nil \<open>c\<close>.
\<close>

definition SetCluster :: "Receiver \<Rightarrow> clusterer option \<Rightarrow> Receiver outcome" where
  "SetCluster r c =
     (let r1 = r\<lparr>cluster := c\<rparr> in
      case dsc r1 of
        None \<Rightarrow> Panic
      | Some d \<Rightarrow>
          (let r2 = r1\<lparr>dsc := Some (d\<lparr>clstr := c\<rparr>)\<rparr> in
           case c of
             None \<Rightarrow> Panic
           | Some cl \<Rightarrow>
               (case LocalNode cl of
                  None \<Rightarrow> Done r2
                | Some ln \<Rightarrow>
                    (let addr = Replace_all (Addr_String ln) (CHR ''.'') ''_'' in
                     if ReportStatsPrefix r2 \<noteq> ''''
                     then Done (r2\<lparr>ReportStatsPrefix := ReportStatsPrefix r2 @ (''.'' @ addr)\<rparr>)
                     else Done (r2\<lparr>ReportStatsPrefix := addr\<rparr>)))))"

text \<open>
  The four submission methods: \<^verbatim>\<open>if !r.stopped { ch <- x }\<close>.
\<close>

definition QueueDataPoint :: "Receiver \<Rightarrow> Ident \<Rightarrow> Time \<Rightarrow> float64 \<Rightarrow> Receiver outcome" where
  "QueueDataPoint r ident ts v =
     (if \<not> stopped r
      then map_outcome (\<lambda>c. r\<lparr>dpCh := c\<rparr>)
             (chan_send (dpCh r) \<lparr>Ident = ident, TimeStamp = ts, Value = v, Hops = 0\<rparr>)
      else Done r)"

definition QueueAggregatorCommand :: "Receiver \<Rightarrow> handle option \<Rightarrow> Receiver outcome" where
  "QueueAggregatorCommand r agg =
     (if \<not> stopped r
      then map_outcome (\<lambda>c. r\<lparr>aggCh := c\<rparr>) (chan_send (aggCh r) agg)
      else Done r)"

definition QueueSum :: "Receiver \<Rightarrow> Ident \<Rightarrow> float64 \<Rightarrow> Receiver outcome" where
  "QueueSum r ident v =
     (if \<not> stopped r
      then map_outcome (\<lambda>c. r\<lparr>pacedMetricCh := c\<rparr>)
             (chan_send (pacedMetricCh r) \<lparr>pm_kind = pacedSum, pm_ident = ident, pm_value = v\<rparr>)
      else Done r)"

definition QueueGauge :: "Receiver \<Rightarrow> Ident \<Rightarrow> float64 \<Rightarrow> Receiver outcome" where
  "QueueGauge r ident v =
     (if \<not> stopped r
      then map_outcome (\<lambda>c. r\<lparr>pacedMetricCh := c\<rparr>)
             (chan_send (pacedMetricCh r) \<lparr>pm_kind = pacedGauge, pm_ident = ident, pm_value = v\<rparr>)
      else Done r)"

text \<open>
  The two internal stat hooks take the receiver pointer, which may be nil:
  \<^verbatim>\<open>if r != nil && r.ReportStats && f != 0 { r.QueueSum(serde.Ident{"name": r.ReportStatsPrefix + "." + name}, f) }\<close>
  and the same for the gauge without the test on \<open>f\<close>.
\<close>

definition stat_ident :: "Receiver \<Rightarrow> string \<Rightarrow> Ident" where
  "stat_ident r name = [''name'' \<mapsto> ReportStatsPrefix r @ ''.'' @ name]"

definition reportStatCount :: "Receiver option \<Rightarrow> string \<Rightarrow> float64 \<Rightarrow> Receiver option outcome" where
  "reportStatCount rp name f =
     (case rp of
        None \<Rightarrow> Done None
      | Some r \<Rightarrow>
          if ReportStats r \<and> f64_ne_zero f
          then map_outcome Some (QueueSum r (stat_ident r name) f)
          else Done (Some r))"

definition reportStatGauge :: "Receiver option \<Rightarrow> string \<Rightarrow> float64 \<Rightarrow> Receiver option outcome" where
  "reportStatGauge rp name f =
     (case rp of
        None \<Rightarrow> Done None
      | Some r \<Rightarrow>
          if ReportStats r
          then map_outcome Some (QueueGauge r (stat_ident r name) f)
          else Done (Some r))"

section \<open>The cache policy and the worker's routing\<close>

text \<open>
  receiver.go declares the cache parameters, the worker count and the hop count of a
  point; the code that reads them (the DS cache's flush decision and the flush
  scheduler, the start of the workers, the worker's forwarding) lies outside it. These
  are modelled from the specification.
\<close>

text \<open>
  Modelled from the spec: the metric state of the DS cache, which receiver.go does not
  contain. Of the fields the specification lists (3, Metric State) the flush policy
  reads the time of the last flush and the number of accumulated unflushed points.
  \<open>queued\<close> says that a flush request for the metric is pending in the scheduler's
  queue (3, Flush Request).
\<close>

record MetricState =
  lastFlush :: Time
  unflushed :: nat
  queued :: bool

text \<open>
  Modelled from the spec: the flush-threshold policy of the DS cache (4.3), missing from
  the source. A metric is flagged when the time since its last flush has reached
  \<open>MaxCacheDuration\<close>, or its unflushed point count has reached \<open>MaxCachedPoints\<close>;
  either way the time since the last flush must also have reached \<open>MinCacheDuration\<close>.
\<close>

definition flush_flagged :: "Receiver \<Rightarrow> MetricState \<Rightarrow> Time \<Rightarrow> bool" where
  "flush_flagged r m now =
     (let since = now - lastFlush m in
      (MaxCacheDuration r \<le> since \<and> MinCacheDuration r \<le> since)
      \<or> (MaxCachedPoints r \<le> int (unflushed m) \<and> MinCacheDuration r \<le> since))"

text \<open>
  Modelled from the spec: the hand-over to the flush scheduler (4.2, step 2), missing
  from the source. A metric that the policy flags is queued for a write.
\<close>

definition evaluate_policy :: "Receiver \<Rightarrow> MetricState \<Rightarrow> Time \<Rightarrow> MetricState" where
  "evaluate_policy r m now = (if flush_flagged r m now then m\<lparr>queued := True\<rparr> else m)"

text \<open>
  Modelled from the spec: what happens to one metric over time (3, 4.2, 4.3, 4.4, 8),
  missing from the source. Each event carries the instant at which it happens.
  \<^item> \<open>ApplyPoint\<close>: the worker applies a point and evaluates the policy.
  \<^item> \<open>IdleCheck\<close>: the policy is evaluated for the metric with no new point.
  \<^item> \<open>SchedulerWrite\<close>: the scheduler, at its own pace, comes to the metric. If a
    request is queued, it reads and clears the accumulated points and writes them; that
    is a flush. Whether the write succeeds changes nothing in the metric's state (a
    failed write is logged and not queued again), so the result is not an input.
  \<^item> \<open>Shutdown\<close>: the receiver stops. The scheduler drains its queue, and pending
    points of a metric that is not queued are force-flushed. Nothing happens to the
    metric after that.
\<close>

datatype cache_event =
  ApplyPoint Time | IdleCheck Time | SchedulerWrite Time | Shutdown Time

fun event_time :: "cache_event \<Rightarrow> Time" where
  "event_time (ApplyPoint t) = t"
| "event_time (IdleCheck t) = t"
| "event_time (SchedulerWrite t) = t"
| "event_time (Shutdown t) = t"

text \<open>
  A flush and its instant: the write of a queued request (by the paced scheduler, or
  when it drains its queue at shutdown), or the forced flush at shutdown of the pending
  points of a metric that was not queued.
\<close>

datatype flush = QueuedFlush Time | ForcedFlush Time

fun flush_time :: "flush \<Rightarrow> Time" where
  "flush_time (QueuedFlush t) = t"
| "flush_time (ForcedFlush t) = t"

text \<open>The flushes of the metric, in order, as the events are processed.\<close>

fun flushes :: "Receiver \<Rightarrow> MetricState \<Rightarrow> cache_event list \<Rightarrow> flush list" where
  "flushes r m [] = []"
| "flushes r m (ApplyPoint t # es) =
     flushes r (evaluate_policy r (m\<lparr>unflushed := unflushed m + 1\<rparr>) t) es"
| "flushes r m (IdleCheck t # es) = flushes r (evaluate_policy r m t) es"
| "flushes r m (SchedulerWrite t # es) =
     (if queued m
      then QueuedFlush t # flushes r (m\<lparr>lastFlush := t, unflushed := 0, queued := False\<rparr>) es
      else flushes r m es)"
| "flushes r m (Shutdown t # es) =
     (if queued m then [QueuedFlush t]
      else if 0 < unflushed m then [ForcedFlush t]
      else [])"

text \<open>Every two consecutive instants of a list are at least \<open>d\<close> apart.\<close>

fun min_gap :: "Duration \<Rightarrow> Time list \<Rightarrow> bool" where
  "min_gap d [] = True"
| "min_gap d [t] = True"
| "min_gap d (t # u # ts) = (d \<le> u - t \<and> min_gap d (u # ts))"

text \<open>
  Every flush of a queued request comes at least \<open>d\<close> after the flush before it
  (\<open>prev\<close> is the instant of the last flush before the list); a forced flush is under
  no such bound.
\<close>

fun spaced :: "Duration \<Rightarrow> Time \<Rightarrow> flush list \<Rightarrow> bool" where
  "spaced d prev [] = True"
| "spaced d prev (QueuedFlush t # fs) = (d \<le> t - prev \<and> spaced d t fs)"
| "spaced d prev (ForcedFlush t # fs) = spaced d t fs"

text \<open>
  Modelled from the spec: \<^verbatim>\<open>doStart\<close>, which \<^verbatim>\<open>Start\<close> calls and receiver.go does not
  contain (4.1 \<open>start()\<close>, 4.2, 7 Fatal-to-start). A worker count that is zero or
  negative fails the start and is not clamped; \<^verbatim>\<open>Start\<close> returns no value, so the
  failure is a panic. Otherwise the workers are launched, each with its input channel
  (of a capacity \<open>wcap\<close> that the specification leaves open). The other routines a
  start launches hold no field of the receiver.
\<close>

definition doStart :: "nat \<Rightarrow> Receiver \<Rightarrow> Receiver outcome" where
  "doStart wcap r =
     (if NWorkers r \<le> 0 then Panic
      else Done (r\<lparr>workerChs := replicate (nat (NWorkers r)) (make_chan wcap)\<rparr>))"

text \<open>
  Modelled from the spec: the worker's routing of a point (4.2, step 2), missing from the
  source. \<open>owned\<close> is the cluster router's answer for this node (always true without a
  cluster), \<open>limit\<close> the forwarding limit. The second component of the result is what
  the step adds to the dropped-point stat.
\<close>

datatype routing = ApplyLocally incomingDP | Forward incomingDP | Dropped

definition worker_route :: "int \<Rightarrow> bool \<Rightarrow> incomingDP \<Rightarrow> routing \<times> nat" where
  "worker_route limit owned dp =
     (if owned then (ApplyLocally dp, 0)
      else if Hops dp < limit then (Forward (dp\<lparr>Hops := Hops dp + 1\<rparr>), 0)
      else (Dropped, 1))"

text \<open>
  Modelled from the spec: a point travelling through the cluster. Each node it reaches
  routes it, and a forwarded point reaches the next node; \<open>owners\<close> lists, node after
  node, whether that node takes itself for the owner (membership may be changing, so
  any list is possible). The result is the number of times the point is forwarded.
\<close>

fun forwards :: "int \<Rightarrow> bool list \<Rightarrow> incomingDP \<Rightarrow> nat" where
  "forwards limit [] dp = 0"
| "forwards limit (owned # owners) dp =
     (case fst (worker_route limit owned dp) of
        Forward dp1 \<Rightarrow> Suc (forwards limit owners dp1)
      | ApplyLocally dp1 \<Rightarrow> 0
      | Dropped \<Rightarrow> 0)"

section \<open>Example values\<close>

definition example_serde :: SerDe where
  "example_serde = \<lparr>Flusher = 1, Fetcher = 2\<rparr>"

definition example_cluster :: clusterer where
  "example_cluster =
     \<lparr>LocalNode = Some \<lparr>Addr_String = ''10.0.0.7''\<rparr>, Ready = (\<lambda>b. None)\<rparr>"

text \<open>The receiver \<open>New\<close> returns for the example SerDe and a nil finder.\<close>

definition example_receiver :: Receiver where
  "example_receiver =
     \<lparr>NWorkers = 4,
      MinCacheDuration = 1 * Second,
      MaxCacheDuration = 5 * Second,
      MaxCachedPoints = 256,
      MaxFlushRatePerSecond = 100,
      StatFlushDuration = 10 * Second,
      StatsNamePrefix = ''stats'',
      ReportStats = False,
      ReportStatsPrefix = ''tgres'',
      cluster = None,
      serde = Some example_serde,
      dsc = Some (newDsCache 2 (SimpleDSFinder 0) \<lparr>db = 1\<rparr>),
      flusher = Some \<lparr>db = 1\<rparr>,
      dpCh = make_chan 65536,
      workerChs = [],
      aggCh = make_chan 1024,
      pacedMetricCh = make_chan 1024,
      stopped = False\<rparr>"

section \<open>Properties\<close>

lemma New_example: "New 0 (Some example_serde) None = Done example_receiver"
  by (simp add: New_def Let_def example_receiver_def example_serde_def)

text \<open>
  C4. For a non-nil SerDe and any finder (nil or not), \<open>New\<close> returns a receiver that
  carries the defaults: 4 workers, a minimum cache duration of 1 second, a maximum of
  5 seconds, 256 cached points, 100 flushes per second, a stat flush interval of
  10 seconds, the stats name prefix "stats", and stat reporting off.
\<close>

theorem New_defaults:
  "\<exists>r. New dft (Some s) finder = Done r
     \<and> NWorkers r = 4
     \<and> MinCacheDuration r = 1 * Second
     \<and> MaxCacheDuration r = 5 * Second
     \<and> MaxCachedPoints r = 256
     \<and> MaxFlushRatePerSecond r = 100
     \<and> StatFlushDuration r = 10 * Second
     \<and> StatsNamePrefix r = ''stats''
     \<and> ReportStats r = False"
  by (simp add: New_def Let_def)

subsection \<open>Helper facts\<close>

lemma forwards_bound: "int (forwards limit owners dp) \<le> max 0 (limit - Hops dp)"
proof (induction owners arbitrary: dp)
  case Nil
  show ?case by simp
next
  case (Cons owned owners)
  show ?case
  proof (cases "\<not> owned \<and> Hops dp < limit")
    case True
    have "int (forwards limit owners (dp\<lparr>Hops := Hops dp + 1\<rparr>))
            \<le> max 0 (limit - Hops (dp\<lparr>Hops := Hops dp + 1\<rparr>))"
      by (rule Cons.IH)
    with True show ?thesis by (simp add: worker_route_def)
  next
    case False
    then show ?thesis by (auto simp: worker_route_def)
  qed
qed

lemma Replace_all_char:
  "Replace_all s old [new] = map (\<lambda>c. if c = old then new else c) s"
  by (induction s) (simp_all add: Replace_all_def)

lemma QueueDataPoint_example:
  "QueueDataPoint example_receiver [''name'' \<mapsto> ''x''] 17 5 =
     Done (example_receiver\<lparr>dpCh :=
       \<lparr>chan_buf = [\<lparr>Ident = [''name'' \<mapsto> ''x''], TimeStamp = 17, Value = 5, Hops = 0\<rparr>],
        chan_cap = 65536\<rparr>\<rparr>)"
  by (simp add: QueueDataPoint_def chan_send_def example_receiver_def make_chan_def)

subsection \<open>The minimum cache duration\<close>

lemma lastFlush_evaluate_policy: "lastFlush (evaluate_policy r m t) = lastFlush m"
  by (simp add: evaluate_policy_def)

lemma spaced_flushes:
  assumes "sorted (map event_time es)"
    and "queued m \<longrightarrow> (\<forall>e\<in>set es. MinCacheDuration r \<le> event_time e - lastFlush m)"
  shows "spaced (MinCacheDuration r) (lastFlush m) (flushes r m es)"
  using assms
proof (induction es arbitrary: m)
  case Nil
  show ?case by simp
next
  case (Cons e es)
  have srt: "sorted (map event_time es)" and le: "\<forall>x\<in>set es. event_time e \<le> event_time x"
    using Cons.prems(1) by simp_all
  have keep: "queued m1 \<longrightarrow> (\<forall>x\<in>set es. MinCacheDuration r \<le> event_time x - lastFlush m1)"
    if "lastFlush m1 = lastFlush m"
      and "queued m1 \<longrightarrow> queued m \<or> MinCacheDuration r \<le> event_time e - lastFlush m"
    for m1
    using that Cons.prems(2) le by fastforce
  show ?case
  proof (cases e)
    case (ApplyPoint t)
    let ?m1 = "evaluate_policy r (m\<lparr>unflushed := unflushed m + 1\<rparr>) t"
    have "spaced (MinCacheDuration r) (lastFlush ?m1) (flushes r ?m1 es)"
      by (rule Cons.IH [OF srt keep])
        (auto simp: evaluate_policy_def flush_flagged_def Let_def ApplyPoint)
    then show ?thesis by (simp add: ApplyPoint lastFlush_evaluate_policy)
  next
    case (IdleCheck t)
    let ?m1 = "evaluate_policy r m t"
    have "spaced (MinCacheDuration r) (lastFlush ?m1) (flushes r ?m1 es)"
      by (rule Cons.IH [OF srt keep])
        (auto simp: evaluate_policy_def flush_flagged_def Let_def IdleCheck)
    then show ?thesis by (simp add: IdleCheck lastFlush_evaluate_policy)
  next
    case (SchedulerWrite t)
    show ?thesis
    proof (cases "queued m")
      case True
      let ?m1 = "m\<lparr>lastFlush := t, unflushed := 0, queued := False\<rparr>"
      have "spaced (MinCacheDuration r) (lastFlush ?m1) (flushes r ?m1 es)"
        by (rule Cons.IH [OF srt]) simp
      with True Cons.prems(2) show ?thesis by (simp add: SchedulerWrite)
    next
      case False
      have "spaced (MinCacheDuration r) (lastFlush m) (flushes r m es)"
        by (rule Cons.IH [OF srt]) (simp add: False)
      with False show ?thesis by (simp add: SchedulerWrite)
    qed
  next
    case (Shutdown t)
    with Cons.prems(2) show ?thesis by simp
  qed
qed

lemma spaced_min_gap:
  "spaced d prev fs \<Longrightarrow> \<forall>t. ForcedFlush t \<notin> set fs \<Longrightarrow> min_gap d (prev # map flush_time fs)"
proof (induction fs arbitrary: prev)
  case Nil
  show ?case by simp
next
  case (Cons f fs)
  then show ?case by (cases f) auto
qed

text \<open>
  C1 (as amended). As time goes on, whatever points, idle checks and scheduler writes a
  metric sees, and whichever threshold has flagged it (staleness or point count), every
  flush of a request the policy queued comes at least \<open>MinCacheDuration\<close> after the
  metric's previous flush, also when the scheduler writes later than the policy flagged.
  Only the flush forced at shutdown, for pending points of a metric that was not
  queued, is exempt; in a run without one, all consecutive flushes are at least
  \<open>MinCacheDuration\<close> apart.
\<close>

theorem queued_flush_not_before_min:
  assumes "\<not> queued m" and "sorted (map event_time es)"
  shows "spaced (MinCacheDuration r) (lastFlush m) (flushes r m es)
       \<and> ((\<forall>t. ForcedFlush t \<notin> set (flushes r m es)) \<longrightarrow>
            min_gap (MinCacheDuration r) (lastFlush m # map flush_time (flushes r m es)))"
proof -
  have a: "spaced (MinCacheDuration r) (lastFlush m) (flushes r m es)"
    using assms by (intro spaced_flushes) simp_all
  then show ?thesis by (simp add: spaced_min_gap)
qed

theorem queued_flush_not_before_min_witness:
  "flushes (example_receiver\<lparr>MaxCachedPoints := 2\<rparr>)
     \<lparr>lastFlush = 0, unflushed = 0, queued = False\<rparr>
     [ApplyPoint 1, ApplyPoint 2, ApplyPoint 3, SchedulerWrite 4, ApplyPoint 1000000000,
      SchedulerWrite 1000000500, IdleCheck 6000000000, IdleCheck 6000000500,
      Shutdown 6000000600]
     = [QueuedFlush 1000000500, QueuedFlush 6000000600]
   \<and> spaced 1000000000 0 [QueuedFlush 1000000500, QueuedFlush 6000000600]
   \<and> min_gap 1000000000 [0, 1000000500, 6000000600]"
proof -
  let ?r = "example_receiver\<lparr>MaxCachedPoints := 2\<rparr>"
  let ?m = "\<lparr>lastFlush = 0, unflushed = 0, queued = False\<rparr>"
  let ?es = "[ApplyPoint 1, ApplyPoint 2, ApplyPoint 3, SchedulerWrite 4,
      ApplyPoint 1000000000, SchedulerWrite 1000000500, IdleCheck 6000000000,
      IdleCheck 6000000500, Shutdown 6000000600]"
  have a: "flushes ?r ?m ?es = [QueuedFlush 1000000500, QueuedFlush 6000000600]"
    by (simp add: evaluate_policy_def flush_flagged_def example_receiver_def Second_def
        Let_def)
  have b: "MinCacheDuration ?r = 1000000000"
    by (simp add: example_receiver_def Second_def)
  have h1: "\<not> queued ?m" by simp
  have h2: "sorted (map event_time ?es)" by simp
  show ?thesis
    using queued_flush_not_before_min [OF h1 h2, of ?r]
    unfolding a b by simp
qed

text \<open>
  C1 as stated allows no flush at all within \<open>MinCacheDuration\<close> of the previous one.
  A metric is written by the scheduler, takes one more point 10 nanoseconds later, and
  the receiver is stopped 10 nanoseconds after that: the pending point is force-flushed
  20 nanoseconds after the previous flush, with a minimum cache duration of one second.
\<close>

theorem shutdown_flush_counterexample:
  "flushes example_receiver \<lparr>lastFlush = 0, unflushed = 0, queued = False\<rparr>
     [ApplyPoint 5000000000, SchedulerWrite 5000000010, ApplyPoint 5000000020,
      Shutdown 5000000030]
     = [QueuedFlush 5000000010, ForcedFlush 5000000030]
   \<and> MinCacheDuration example_receiver = 1000000000
   \<and> \<not> min_gap (MinCacheDuration example_receiver)
         (0 # map flush_time
            (flushes example_receiver \<lparr>lastFlush = 0, unflushed = 0, queued = False\<rparr>
               [ApplyPoint 5000000000, SchedulerWrite 5000000010, ApplyPoint 5000000020,
                Shutdown 5000000030]))"
  by (simp add: evaluate_policy_def flush_flagged_def example_receiver_def Second_def
      Let_def)

subsection \<open>Submissions after Stop\<close>

text \<open>
  C2 (as amended). Once the stopped flag is set, each of the four submission operations
  returns normally and leaves the receiver exactly as it was: nothing is put on any
  channel, and nothing else is recorded either.
\<close>

theorem stopped_drops:
  assumes "stopped r"
  shows "QueueDataPoint r ident ts v = Done r
       \<and> QueueAggregatorCommand r agg = Done r
       \<and> QueueSum r ident v = Done r
       \<and> QueueGauge r ident v = Done r"
  using assms
  by (simp add: QueueDataPoint_def QueueAggregatorCommand_def QueueSum_def QueueGauge_def)

theorem stopped_drops_witness:
  "stopped (example_receiver\<lparr>stopped := True\<rparr>)
   \<and> QueueDataPoint (example_receiver\<lparr>stopped := True\<rparr>) [''name'' \<mapsto> ''x''] 17 5
       = Done (example_receiver\<lparr>stopped := True\<rparr>)
   \<and> QueueAggregatorCommand (example_receiver\<lparr>stopped := True\<rparr>) (Some 3)
       = Done (example_receiver\<lparr>stopped := True\<rparr>)
   \<and> QueueSum (example_receiver\<lparr>stopped := True\<rparr>) [''name'' \<mapsto> ''x''] 5
       = Done (example_receiver\<lparr>stopped := True\<rparr>)
   \<and> QueueGauge (example_receiver\<lparr>stopped := True\<rparr>) [''name'' \<mapsto> ''x''] 5
       = Done (example_receiver\<lparr>stopped := True\<rparr>)"
proof -
  have h: "stopped (example_receiver\<lparr>stopped := True\<rparr>)" by simp
  show ?thesis
    using h stopped_drops [OF h, of "[''name'' \<mapsto> ''x'']" 17 5 "Some 3"] by simp
qed

text \<open>
  C2 as stated also has every drop increment an internal stat. The receiver's internal
  stats are the paced metrics that \<open>reportStatCount\<close> and \<open>reportStatGauge\<close> queue on
  \<open>pacedMetricCh\<close>, and it has no counter field. On a stopped receiver with stat
  reporting on, \<open>QueueDataPoint\<close> gives back a receiver that differs in nothing from the
  one it was called on, so no stat was touched.
\<close>

theorem stopped_drop_stat_counterexample:
  "ReportStats (example_receiver\<lparr>ReportStats := True, stopped := True\<rparr>)
   \<and> stopped (example_receiver\<lparr>ReportStats := True, stopped := True\<rparr>)
   \<and> QueueDataPoint (example_receiver\<lparr>ReportStats := True, stopped := True\<rparr>)
         [''name'' \<mapsto> ''x''] 17 5
       = Done (example_receiver\<lparr>ReportStats := True, stopped := True\<rparr>)"
  by (simp add: QueueDataPoint_def)

subsection \<open>The hop count\<close>

text \<open>
  C5. A point that reaches a node which is not its owner, with a hop count that has
  reached the forwarding limit, is dropped and counted once in the dropped-point stat;
  it is forwarded no further, whatever nodes would come next. And a point that starts
  with hop count 0 is forwarded at most \<open>limit\<close> times along any path through the
  cluster.
\<close>

theorem hop_limit_drop:
  assumes "\<not> owned" and "limit \<le> Hops dp"
  shows "worker_route limit owned dp = (Dropped, 1)
       \<and> forwards limit (owned # owners) dp = 0
       \<and> int (forwards limit nodes (dp\<lparr>Hops := 0\<rparr>)) \<le> max 0 limit"
proof -
  have a: "worker_route limit owned dp = (Dropped, 1)"
    using assms by (simp add: worker_route_def)
  have b: "forwards limit (owned # owners) dp = 0"
    using a by simp
  have c: "int (forwards limit nodes (dp\<lparr>Hops := 0\<rparr>)) \<le> max 0 limit"
    using forwards_bound [of limit nodes "dp\<lparr>Hops := 0\<rparr>"] by simp
  from a b c show ?thesis by simp
qed

theorem hop_limit_drop_witness:
  "worker_route 2 False
     \<lparr>Ident = [''name'' \<mapsto> ''x''], TimeStamp = 0, Value = 0, Hops = 2\<rparr> = (Dropped, 1)
   \<and> forwards 2 [False, False]
       \<lparr>Ident = [''name'' \<mapsto> ''x''], TimeStamp = 0, Value = 0, Hops = 2\<rparr> = 0
   \<and> forwards 2 [False, False, False, False]
       \<lparr>Ident = [''name'' \<mapsto> ''x''], TimeStamp = 0, Value = 0, Hops = 0\<rparr> = 2"
proof -
  let ?dp = "\<lparr>Ident = [''name'' \<mapsto> ''x''], TimeStamp = 0, Value = 0, Hops = 2\<rparr>"
  have h1: "\<not> False" by simp
  have h2: "(2::int) \<le> Hops ?dp" by simp
  have "forwards 2 [False, False, False, False] (?dp\<lparr>Hops := 0\<rparr>) = 2"
    by (simp add: worker_route_def)
  then show ?thesis
    using hop_limit_drop [OF h1 h2, of "[False]" "[False, False, False, False]"] by simp
qed

text \<open>
  C6. When \<open>QueueDataPoint\<close> returns, either the receiver was stopped and nothing
  changed, or exactly one point was appended to \<open>dpCh\<close>, and that point has hop count
  0. In the worker's routing the hop count changes only when the point is forwarded by
  a node that is not its owner, and then it grows by one; a point applied locally is
  the point as it came.
\<close>

theorem QueueDataPoint_hops:
  assumes "QueueDataPoint r ident ts v = Done r1"
  shows "(stopped r \<and> r1 = r
          \<or> \<not> stopped r \<and> r1 = r\<lparr>dpCh := (dpCh r)\<lparr>chan_buf := chan_buf (dpCh r) @
                [\<lparr>Ident = ident, TimeStamp = ts, Value = v, Hops = 0\<rparr>]\<rparr>\<rparr>)
       \<and> (case fst (worker_route limit owned dp) of
            Forward dp1 \<Rightarrow> \<not> owned \<and> dp1 = dp\<lparr>Hops := Hops dp + 1\<rparr>
          | ApplyLocally dp1 \<Rightarrow> dp1 = dp
          | Dropped \<Rightarrow> True)"
proof -
  have a: "stopped r \<and> r1 = r
          \<or> \<not> stopped r \<and> r1 = r\<lparr>dpCh := (dpCh r)\<lparr>chan_buf := chan_buf (dpCh r) @
                [\<lparr>Ident = ident, TimeStamp = ts, Value = v, Hops = 0\<rparr>]\<rparr>\<rparr>"
    using assms by (auto simp: QueueDataPoint_def chan_send_def split: if_splits)
  have b: "case fst (worker_route limit owned dp) of
            Forward dp1 \<Rightarrow> \<not> owned \<and> dp1 = dp\<lparr>Hops := Hops dp + 1\<rparr>
          | ApplyLocally dp1 \<Rightarrow> dp1 = dp
          | Dropped \<Rightarrow> True"
    by (simp add: worker_route_def)
  from a b show ?thesis by (rule conjI)
qed

theorem QueueDataPoint_hops_witness:
  "QueueDataPoint example_receiver [''name'' \<mapsto> ''x''] 17 5 =
     Done (example_receiver\<lparr>dpCh :=
       \<lparr>chan_buf = [\<lparr>Ident = [''name'' \<mapsto> ''x''], TimeStamp = 17, Value = 5, Hops = 0\<rparr>],
        chan_cap = 65536\<rparr>\<rparr>)
   \<and> fst (worker_route 2 False
            \<lparr>Ident = [''name'' \<mapsto> ''x''], TimeStamp = 17, Value = 5, Hops = 0\<rparr>)
       = Forward \<lparr>Ident = [''name'' \<mapsto> ''x''], TimeStamp = 17, Value = 5, Hops = 1\<rparr>"
  using QueueDataPoint_hops [where limit = 2 and owned = False
      and dp = "\<lparr>Ident = [''name'' \<mapsto> ''x''], TimeStamp = 17, Value = 5, Hops = 0\<rparr>",
      OF QueueDataPoint_example]
    QueueDataPoint_example
  by (simp add: worker_route_def)

subsection \<open>The worker count\<close>

text \<open>
  C3. A receiver whose worker count is zero or negative cannot be started: \<open>Start\<close>
  fails, and the count is neither clamped nor replaced. With a positive count the start
  goes through, keeps the count as it is and launches exactly that many workers.
\<close>

theorem Start_rejects_worker_count:
  "(NWorkers r \<le> 0 \<longrightarrow> Start (doStart wcap) r = Panic)
   \<and> (0 < NWorkers r \<longrightarrow>
        (\<exists>r1. Start (doStart wcap) r = Done r1
           \<and> NWorkers r1 = NWorkers r
           \<and> int (length (workerChs r1)) = NWorkers r))"
  by (simp add: Start_def doStart_def)

theorem Start_rejects_worker_count_witness:
  "NWorkers (example_receiver\<lparr>NWorkers := 0\<rparr>) \<le> 0
   \<and> Start (doStart 16) (example_receiver\<lparr>NWorkers := 0\<rparr>) = Panic
   \<and> NWorkers (example_receiver\<lparr>NWorkers := - 3\<rparr>) \<le> 0
   \<and> Start (doStart 16) (example_receiver\<lparr>NWorkers := - 3\<rparr>) = Panic
   \<and> 0 < NWorkers example_receiver
   \<and> Start (doStart 16) example_receiver
       = Done (example_receiver\<lparr>workerChs := replicate 4 (make_chan 16)\<rparr>)"
proof -
  have n: "NWorkers example_receiver = 4" by (simp add: example_receiver_def)
  have w: "Start (doStart 16) example_receiver
             = Done (example_receiver\<lparr>workerChs := replicate 4 (make_chan 16)\<rparr>)"
    by (simp add: Start_def doStart_def n)
  show ?thesis
    using Start_rejects_worker_count [of "example_receiver\<lparr>NWorkers := 0\<rparr>" 16]
      Start_rejects_worker_count [of "example_receiver\<lparr>NWorkers := - 3\<rparr>" 16]
      Start_rejects_worker_count [of example_receiver 16] n w
    by simp
qed

subsection \<open>The cluster\<close>

text \<open>
  C7. On a receiver that has its DS cache (as every receiver from \<open>New\<close> has),
  \<open>SetCluster\<close> with a non-nil cluster returns, and afterwards the cluster is stored in
  the receiver and in the cache. When the cluster has a local node, the stat prefix is
  the old prefix, a dot, and the node's address with every dot turned into an
  underscore, or that address alone when the old prefix was empty; with no local node
  the prefix stays.
\<close>

theorem SetCluster_prefix:
  assumes "dsc r = Some d"
  shows "\<exists>r1. SetCluster r (Some c) = Done r1
           \<and> cluster r1 = Some c
           \<and> dsc r1 = Some (d\<lparr>clstr := Some c\<rparr>)
           \<and> ReportStatsPrefix r1 =
               (case LocalNode c of
                  None \<Rightarrow> ReportStatsPrefix r
                | Some ln \<Rightarrow>
                    (if ReportStatsPrefix r = ''''
                     then map (\<lambda>x. if x = CHR ''.'' then CHR ''_'' else x) (Addr_String ln)
                     else ReportStatsPrefix r @ ''.''
                            @ map (\<lambda>x. if x = CHR ''.'' then CHR ''_'' else x) (Addr_String ln)))"
  using assms
  by (cases "LocalNode c") (simp_all add: SetCluster_def Let_def Replace_all_char)

theorem SetCluster_prefix_witness:
  "\<exists>r1. SetCluster example_receiver (Some example_cluster) = Done r1
      \<and> cluster r1 = Some example_cluster
      \<and> ReportStatsPrefix r1 = ''tgres.10_0_0_7''
      \<and> (\<exists>r2. SetCluster (example_receiver\<lparr>ReportStatsPrefix := ''''\<rparr>) (Some example_cluster) = Done r2
          \<and> ReportStatsPrefix r2 = ''10_0_0_7'')"
proof -
  have h1: "dsc example_receiver = Some (newDsCache 2 (SimpleDSFinder 0) \<lparr>db = 1\<rparr>)"
    by (simp add: example_receiver_def)
  have h2: "dsc (example_receiver\<lparr>ReportStatsPrefix := ''''\<rparr>)
              = Some (newDsCache 2 (SimpleDSFinder 0) \<lparr>db = 1\<rparr>)"
    by (simp add: example_receiver_def)
  have p: "ReportStatsPrefix example_receiver = ''tgres''"
    by (simp add: example_receiver_def)
  have l: "LocalNode example_cluster = Some \<lparr>Addr_String = ''10.0.0.7''\<rparr>"
    by (simp add: example_cluster_def)
  show ?thesis
    using SetCluster_prefix [OF h1, of example_cluster]
      SetCluster_prefix [OF h2, of example_cluster]
    by (auto simp: p l)
qed

text \<open>
  C10. On a receiver as \<open>New\<close> returns it, no cluster is set and \<open>ClusterReady\<close>
  panics on the nil interface; once \<open>SetCluster\<close> has installed a non-nil cluster,
  \<open>ClusterReady\<close> returns.
\<close>

theorem ClusterReady_without_cluster:
  assumes "New dft sd finder = Done r"
  shows "ClusterReady r ready = Panic
       \<and> (\<forall>c r1. SetCluster r (Some c) = Done r1 \<longrightarrow> ClusterReady r1 ready = Done r1)"
proof -
  from assms have c: "cluster r = None"
    by (auto simp: New_def Let_def split: option.splits)
  then have a: "ClusterReady r ready = Panic" by (simp add: ClusterReady_def)
  have b: "ClusterReady r1 ready = Done r1" if "SetCluster r (Some c) = Done r1" for c r1
  proof -
    from that have "cluster r1 = Some c"
      by (auto simp: SetCluster_def Let_def split: option.splits if_splits)
    then show ?thesis by (simp add: ClusterReady_def)
  qed
  from a b show ?thesis by blast
qed

theorem ClusterReady_without_cluster_witness:
  "New 0 (Some example_serde) None = Done example_receiver
   \<and> ClusterReady example_receiver True = Panic
   \<and> (\<exists>r1. SetCluster example_receiver (Some example_cluster) = Done r1
          \<and> ClusterReady r1 True = Done r1)"
proof -
  have d: "dsc example_receiver = Some (newDsCache 2 (SimpleDSFinder 0) \<lparr>db = 1\<rparr>)"
    by (simp add: example_receiver_def)
  have "\<exists>r1. SetCluster example_receiver (Some example_cluster) = Done r1"
    by (simp add: SetCluster_def Let_def d example_cluster_def)
  then show ?thesis
    using ClusterReady_without_cluster [OF New_example, of True] New_example by auto
qed

subsection \<open>Internal stats\<close>

text \<open>
  C8. With a nil receiver, or with stat reporting off, \<open>reportStatCount\<close> and
  \<open>reportStatGauge\<close> return normally and change nothing: no panic, nothing queued.
\<close>

theorem reportStat_noop:
  assumes "rp = None \<or> (\<exists>r. rp = Some r \<and> \<not> ReportStats r)"
  shows "reportStatCount rp name f = Done rp \<and> reportStatGauge rp name f = Done rp"
  using assms by (auto simp: reportStatCount_def reportStatGauge_def)

theorem reportStat_noop_witness:
  "reportStatCount None ''receiver.dropped'' 5 = Done None
   \<and> reportStatGauge None ''receiver.dropped'' 5 = Done None
   \<and> \<not> ReportStats example_receiver
   \<and> reportStatCount (Some example_receiver) ''receiver.dropped'' 5 = Done (Some example_receiver)
   \<and> reportStatGauge (Some example_receiver) ''receiver.dropped'' 5 = Done (Some example_receiver)"
proof -
  have h1: "(None :: Receiver option) = None \<or> (\<exists>r. None = Some r \<and> \<not> ReportStats r)"
    by simp
  have n: "\<not> ReportStats example_receiver" by (simp add: example_receiver_def)
  then have h2: "Some example_receiver = None
      \<or> (\<exists>r. Some example_receiver = Some r \<and> \<not> ReportStats r)"
    by simp
  show ?thesis
    using reportStat_noop [OF h1, of "''receiver.dropped''" 5]
      reportStat_noop [OF h2, of "''receiver.dropped''" 5] n
    by simp
qed

text \<open>
  C9 (as amended). With a non-nil receiver and stat reporting on, \<open>reportStatCount\<close>
  queues nothing for a value that compares equal to 0. \<open>reportStatGauge\<close> makes no test
  on the value: when the receiver is not stopped (and \<open>pacedMetricCh\<close> has room for
  the send to complete) it queues one paced gauge carrying the value, 0 included, under
  the name made of the stat prefix, a dot and the stat's name; when the receiver is
  stopped it queues nothing.
\<close>

theorem reportStat_zero:
  assumes "ReportStats r"
  shows "(\<not> f64_ne_zero z \<longrightarrow> reportStatCount (Some r) name z = Done (Some r))
       \<and> reportStatCount (Some r) name 0 = Done (Some r)
       \<and> (\<not> stopped r \<and> length (chan_buf (pacedMetricCh r)) < chan_cap (pacedMetricCh r) \<longrightarrow>
            reportStatGauge (Some r) name f =
              Done (Some (r\<lparr>pacedMetricCh := (pacedMetricCh r)\<lparr>chan_buf :=
                chan_buf (pacedMetricCh r) @
                  [\<lparr>pm_kind = pacedGauge, pm_ident = [''name'' \<mapsto> ReportStatsPrefix r @ ''.'' @ name],
                    pm_value = f\<rparr>]\<rparr>\<rparr>)))
       \<and> (stopped r \<longrightarrow> reportStatGauge (Some r) name f = Done (Some r))"
  using assms
  by (simp add: reportStatCount_def reportStatGauge_def QueueGauge_def chan_send_def
      stat_ident_def f64_ne_zero_def)

theorem reportStat_zero_witness:
  "ReportStats (example_receiver\<lparr>ReportStats := True\<rparr>)
   \<and> reportStatCount (Some (example_receiver\<lparr>ReportStats := True\<rparr>)) ''receiver.dropped'' 0
       = Done (Some (example_receiver\<lparr>ReportStats := True\<rparr>))
   \<and> reportStatGauge (Some (example_receiver\<lparr>ReportStats := True\<rparr>)) ''receiver.dropped'' 0
       = Done (Some (example_receiver\<lparr>ReportStats := True, pacedMetricCh :=
           \<lparr>chan_buf = [\<lparr>pm_kind = pacedGauge, pm_ident = [''name'' \<mapsto> ''tgres.receiver.dropped''],
                         pm_value = 0\<rparr>],
            chan_cap = 1024\<rparr>\<rparr>))"
proof -
  have h: "ReportStats (example_receiver\<lparr>ReportStats := True\<rparr>)" by simp
  have s: "\<not> stopped (example_receiver\<lparr>ReportStats := True\<rparr>)"
    "pacedMetricCh (example_receiver\<lparr>ReportStats := True\<rparr>) = \<lparr>chan_buf = [], chan_cap = 1024\<rparr>"
    "ReportStatsPrefix (example_receiver\<lparr>ReportStats := True\<rparr>) = ''tgres''"
    by (simp_all add: example_receiver_def make_chan_def)
  show ?thesis
    using reportStat_zero [OF h, of 0 "''receiver.dropped''" 0] s
    by simp
qed

text \<open>
  C9 as stated has \<open>reportStatGauge\<close> queue a gauge whenever the receiver is non-nil
  and stat reporting is on. On a stopped receiver it goes through \<open>QueueGauge\<close>, which
  drops the submission: the receiver, \<open>pacedMetricCh\<close> included, is as it was.
\<close>

theorem reportStatGauge_stopped_counterexample:
  "ReportStats (example_receiver\<lparr>ReportStats := True, stopped := True\<rparr>)
   \<and> reportStatGauge (Some (example_receiver\<lparr>ReportStats := True, stopped := True\<rparr>))
         ''receiver.dropped'' 0
       = Done (Some (example_receiver\<lparr>ReportStats := True, stopped := True\<rparr>))"
  by (simp add: reportStatGauge_def QueueGauge_def)

end
